theory Spec2Isabelle
  imports Main
begin

section \<open>The SyncSettings component (src/components/SyncSettings.tsx)\<close>

text \<open>
  The component is a React function component: ten \<^verbatim>\<open>useState\<close> cells, a set of event
  handlers that close over the cells' values of the rendering that created them, and calls
  to three collaborators whose code is not part of the component: \<^verbatim>\<open>WebStorageService\<close>,
  \<^verbatim>\<open>ApiService\<close> and \<^verbatim>\<open>notifications\<close>.

  The embedding keeps these three things apart.
  \<^item> The cells are a record, \<open>component\<close>. A handler takes the record of the rendering it
    was created in as an argument (its closure); a \<^verbatim>\<open>setX\<close> call changes the record of
    the next rendering, never the handler's own argument.
  \<^item> Every collaborator call is a parameter: a function from the collaborator's state
    (an arbitrary type \<open>'w\<close>) to the call's outcome, a returned value or a thrown one,
    and the next state. An awaited promise is modelled by the outcome it settles to.
  \<^item> Every call, notification and console line is appended to a trace, so that what was
    called, with which arguments and in which order can be stated.
\<close>

subsection \<open>Values that cross the component's boundary\<close>

text \<open>What a \<^verbatim>\<open>catch\<close> clause receives: an \<^verbatim>\<open>Error\<close> object with its message, or any
  other thrown value (for which \<^verbatim>\<open>error instanceof Error\<close> is false).\<close>

datatype thrown = JsError string | NonError

datatype 'a outcome = Returns 'a | Throws thrown

text \<open>A settings object as the component builds it and hands it to \<^verbatim>\<open>saveSyncSettings\<close>.
  The type declaration (\<^verbatim>\<open>types/sync\<close>) is not among the sources; the component passes
  both whole objects and \<^verbatim>\<open>Partial<SyncSettingsType>\<close> objects, so every key is optional
  here: \<open>None\<close> is an absent key. \<^verbatim>\<open>sync_interval\<close> is a number that the component only
  copies.\<close>

record SyncSettingsType =
  auto_sync :: "bool option"
  server_url :: "string option"
  custom_servers :: "string list option"
  seed_phrase :: "string option"
  sync_interval :: "int option"

text \<open>What \<^verbatim>\<open>getSyncSettings\<close> resolves to: a whole settings object. The component hands
  its \<^verbatim>\<open>auto_sync\<close> and \<^verbatim>\<open>server_url\<close> to \<^verbatim>\<open>setAutoSync\<close> and
  \<^verbatim>\<open>setSelectedServer\<close> as they are, so they are a boolean and a string; it reads
  \<^verbatim>\<open>custom_servers\<close> and \<^verbatim>\<open>seed_phrase\<close> with a default, so they may be missing; it
  only copies \<^verbatim>\<open>sync_interval\<close>.\<close>

record StoredSettings =
  stored_auto_sync :: bool
  stored_server_url :: string
  stored_custom_servers :: "string list option"
  stored_seed_phrase :: "string option"
  stored_sync_interval :: "int option"

text \<open>The argument of \<^verbatim>\<open>notifications.show\<close>.\<close>

record notification =
  title :: string
  message :: string
  color :: string
  autoClose :: "bool option"

text \<open>The trace: one event per collaborator call (with the outcome the collaborator gave),
  per notification and per console line.\<close>

datatype event =
    Notify notification
  | ConsoleLog string
  | ConsoleError string thrown
  | GetSyncSettings "StoredSettings outcome"
  | SaveSyncSettings SyncSettingsType "unit outcome"
  | InitializeCrypto string "unit outcome"
  | HealthCheck string "bool outcome"
  | SyncWithServer string "unit outcome"
  | OnSync "unit outcome"

text \<open>The collaborators. \<open>URL_constructor\<close> is the platform's \<^verbatim>\<open>new URL(url)\<close>, which
  returns or throws and has no state.\<close>

record 'w services =
  getSyncSettings :: "'w \<Rightarrow> StoredSettings outcome \<times> 'w"
  saveSyncSettings :: "SyncSettingsType \<Rightarrow> 'w \<Rightarrow> unit outcome \<times> 'w"
  initializeCrypto :: "string \<Rightarrow> 'w \<Rightarrow> unit outcome \<times> 'w"
  healthCheck :: "string \<Rightarrow> 'w \<Rightarrow> bool outcome \<times> 'w"
  syncWithServer :: "string \<Rightarrow> 'w \<Rightarrow> unit outcome \<times> 'w"
  URL_constructor :: "string \<Rightarrow> unit outcome"

subsection \<open>The component's state\<close>

record server_option =
  option_label :: string
  option_value :: string

definition DEFAULT_SERVERS :: "server_option list" where
  "DEFAULT_SERVERS =
     [\<lparr>option_label = ''Official Server'', option_value = ''https://notes-sync.0xgingi.com''\<rparr>,
      \<lparr>option_label = ''Local Server'', option_value = ''http://localhost:3222''\<rparr>]"

record component =
  seedPhrase :: string
  autoSync :: bool
  showNewSeedPhrase :: bool
  newSeedPhrase :: string
  syncing :: bool
  selectedServer :: string
  customServers :: "string list"
  newServerUrl :: string
  showAddServer :: bool
  isValidUrl :: bool

text \<open>The initial values of the \<^verbatim>\<open>useState\<close> cells.\<close>

definition initial_component :: component where
  "initial_component =
     \<lparr>seedPhrase = [], autoSync = False, showNewSeedPhrase = False, newSeedPhrase = [],
      syncing = False, selectedServer = option_value (DEFAULT_SERVERS ! 0),
      customServers = [], newServerUrl = [], showAddServer = False, isValidUrl = False\<rparr>"

subsection \<open>Handlers as processes\<close>

text \<open>What a running handler can change: the cells of the next rendering, the
  collaborators' state, and the trace.\<close>

record 'w machine =
  ui :: component
  world :: 'w
  trace :: "event list"

type_synonym ('w, 'a) proc = "'w machine \<Rightarrow> 'a outcome \<times> 'w machine"

definition ret :: "'a \<Rightarrow> ('w, 'a) proc" where
  "ret x m = (Returns x, m)"

definition throw :: "thrown \<Rightarrow> ('w, 'a) proc" where
  "throw e m = (Throws e, m)"

text \<open>Statement sequencing, also across an \<^verbatim>\<open>await\<close>: a thrown value skips the rest.\<close>

definition andThen :: "('w, 'a) proc \<Rightarrow> ('a \<Rightarrow> ('w, 'b) proc) \<Rightarrow> ('w, 'b) proc" where
  "andThen p k m =
     (case p m of
        (Returns x, m1) \<Rightarrow> k x m1
      | (Throws e, m1) \<Rightarrow> (Throws e, m1))"

definition try_catch :: "('w, 'a) proc \<Rightarrow> (thrown \<Rightarrow> ('w, 'a) proc) \<Rightarrow> ('w, 'a) proc" where
  "try_catch p h m =
     (case p m of
        (Returns x, m1) \<Rightarrow> (Returns x, m1)
      | (Throws e, m1) \<Rightarrow> h e m1)"

text \<open>\<^verbatim>\<open>try { p } finally { f }\<close>: \<open>f\<close> runs on both ways out of \<open>p\<close>.\<close>

definition try_finally :: "('w, 'a) proc \<Rightarrow> ('w, unit) proc \<Rightarrow> ('w, 'a) proc" where
  "try_finally p f m =
     (case p m of
        (r, m1) \<Rightarrow>
          (case f m1 of
             (Returns u, m2) \<Rightarrow> (r, m2)
           | (Throws e, m2) \<Rightarrow> (Throws e, m2)))"

definition emit :: "event \<Rightarrow> ('w, unit) proc" where
  "emit ev m = (Returns (), m\<lparr>trace := trace m @ [ev]\<rparr>)"

definition setState :: "(component \<Rightarrow> component) \<Rightarrow> ('w, unit) proc" where
  "setState f m = (Returns (), m\<lparr>ui := f (ui m)\<rparr>)"

text \<open>A collaborator call: the collaborator answers from its state, and the call is traced
  together with the answer.\<close>

definition call :: "('a outcome \<Rightarrow> event) \<Rightarrow> ('w \<Rightarrow> 'a outcome \<times> 'w) \<Rightarrow> ('w, 'a) proc" where
  "call ev f m =
     (case f (world m) of
        (r, w1) \<Rightarrow> (r, m\<lparr>world := w1, trace := trace m @ [ev r]\<rparr>))"

definition notifications_show :: "notification \<Rightarrow> ('w, unit) proc" where
  "notifications_show n = emit (Notify n)"

text \<open>Running a handler from a rendering with cells \<open>s\<close>, collaborators in state \<open>w\<close> and
  an empty trace.\<close>

definition exec :: "('w, 'a) proc \<Rightarrow> component \<Rightarrow> 'w \<Rightarrow> 'w machine" where
  "exec p s w = snd (p \<lparr>ui = s, world = w, trace = []\<rparr>)"

definition shown :: "event list \<Rightarrow> notification list" where
  "shown evs = concat (map (\<lambda>ev. case ev of Notify n \<Rightarrow> [n] | _ \<Rightarrow> []) evs)"

definition saved :: "event list \<Rightarrow> SyncSettingsType list" where
  "saved evs = concat (map (\<lambda>ev. case ev of SaveSyncSettings obj r \<Rightarrow> [obj] | _ \<Rightarrow> []) evs)"

subsection \<open>validateUrl, handleUrlChange\<close>

definition validateUrl :: "'w services \<Rightarrow> string \<Rightarrow> bool" where
  "validateUrl srv url =
     (case URL_constructor srv url of
        Returns u \<Rightarrow> True
      | Throws e \<Rightarrow> False)"

definition handleUrlChange :: "'w services \<Rightarrow> string \<Rightarrow> ('w, unit) proc" where
  "handleUrlChange srv v =
     andThen (setState (\<lambda>c. c\<lparr>newServerUrl := v\<rparr>)) (\<lambda>u.
     setState (\<lambda>c. c\<lparr>isValidUrl := validateUrl srv v\<rparr>))"

subsection \<open>loadSettings\<close>

text \<open>The effect that runs once after the first rendering.
  \<^verbatim>\<open>settings.custom_servers || []\<close> and \<^verbatim>\<open>settings.seed_phrase ?? ''\<close> are the two
  defaults for a missing key.\<close>

definition loadSettings :: "'w services \<Rightarrow> ('w, unit) proc" where
  "loadSettings srv =
     try_catch
       (andThen (call GetSyncSettings (getSyncSettings srv)) (\<lambda>settings.
        andThen (setState (\<lambda>c. c\<lparr>autoSync := stored_auto_sync settings\<rparr>)) (\<lambda>u.
        andThen (setState (\<lambda>c. c\<lparr>selectedServer := stored_server_url settings\<rparr>)) (\<lambda>u.
        andThen (setState (\<lambda>c. c\<lparr>customServers :=
                   (case stored_custom_servers settings of Some urls \<Rightarrow> urls | None \<Rightarrow> [])\<rparr>)) (\<lambda>u.
        setState (\<lambda>c. c\<lparr>seedPhrase :=
                   (case stored_seed_phrase settings of Some phrase \<Rightarrow> phrase | None \<Rightarrow> [])\<rparr>))))))
       (\<lambda>err. emit (ConsoleError ''Failed to load settings:'' err))"

subsection \<open>saveSettings\<close>

text \<open>The object literal \<^verbatim>\<open>{}\<close>; an update such as \<^verbatim>\<open>{ server_url: v }\<close> is
  \<open>no_updates\<lparr>server_url := Some v\<rparr>\<close>.\<close>

definition no_updates :: SyncSettingsType where
  "no_updates =
     \<lparr>auto_sync = None, server_url = None, custom_servers = None, seed_phrase = None,
      sync_interval = None\<rparr>"

text \<open>\<open>s\<close> holds the cells as the closure sees them. \<^verbatim>\<open>'k' in updates ? updates.k! : cell\<close>
  is the case distinction on the key's presence.\<close>

definition saveSettings :: "'w services \<Rightarrow> component \<Rightarrow> SyncSettingsType \<Rightarrow> ('w, unit) proc" where
  "saveSettings srv s updates =
     try_catch
       (andThen (call GetSyncSettings (getSyncSettings srv)) (\<lambda>currentSettings.
        let newSettings =
              \<lparr>auto_sync = (case auto_sync updates of Some v \<Rightarrow> Some v | None \<Rightarrow> Some (autoSync s)),
               server_url = (case server_url updates of Some v \<Rightarrow> Some v | None \<Rightarrow> Some (selectedServer s)),
               custom_servers = (case custom_servers updates of Some v \<Rightarrow> Some v | None \<Rightarrow> Some (customServers s)),
               seed_phrase = (case seed_phrase updates of Some v \<Rightarrow> Some v | None \<Rightarrow> Some (seedPhrase s)),
               sync_interval = stored_sync_interval currentSettings\<rparr>
        in call (SaveSyncSettings newSettings) (saveSyncSettings srv newSettings)))
       (\<lambda>error.
          notifications_show
            \<lparr>title = ''Error'', message = ''Failed to save settings'', color = ''red'',
             autoClose = None\<rparr>)"

subsection \<open>handleAddServer, handleRemoveServer, handleServerChange\<close>

definition handleAddServer :: "'w services \<Rightarrow> component \<Rightarrow> ('w, unit) proc" where
  "handleAddServer srv s =
     try_catch
       (if \<not> isValidUrl s then ret ()
        else if newServerUrl s \<in> set (customServers s)
                \<or> list_ex (\<lambda>d. option_value d = newServerUrl s) DEFAULT_SERVERS
        then
          notifications_show
            \<lparr>title = ''Error'', message = ''Server already exists'', color = ''red'',
             autoClose = None\<rparr>
        else
          (let updatedServers = customServers s @ [newServerUrl s] in
           andThen (setState (\<lambda>c. c\<lparr>customServers := updatedServers\<rparr>)) (\<lambda>u.
           andThen (setState (\<lambda>c. c\<lparr>selectedServer := newServerUrl s\<rparr>)) (\<lambda>u.
           andThen (saveSettings srv s
                      (no_updates\<lparr>custom_servers := Some updatedServers,
                                  server_url := Some (newServerUrl s)\<rparr>)) (\<lambda>u.
           andThen (setState (\<lambda>c. c\<lparr>newServerUrl := []\<rparr>)) (\<lambda>u.
           andThen (setState (\<lambda>c. c\<lparr>showAddServer := False\<rparr>)) (\<lambda>u.
           notifications_show
             \<lparr>title = ''Success'', message = ''Server added successfully'', color = ''green'',
              autoClose = None\<rparr>)))))))
       (\<lambda>error.
          notifications_show
            \<lparr>title = ''Error'', message = ''Failed to add server'', color = ''red'',
             autoClose = None\<rparr>)"

definition handleRemoveServer :: "'w services \<Rightarrow> component \<Rightarrow> string \<Rightarrow> ('w, unit) proc" where
  "handleRemoveServer srv s serverUrl =
     (let updatedServers = filter (\<lambda>url. url \<noteq> serverUrl) (customServers s) in
      andThen (setState (\<lambda>c. c\<lparr>customServers := updatedServers\<rparr>)) (\<lambda>u.
      andThen (saveSettings srv s (no_updates\<lparr>custom_servers := Some updatedServers\<rparr>)) (\<lambda>u.
      if selectedServer s = serverUrl then
        (let newServer = option_value (DEFAULT_SERVERS ! 0) in
         andThen (setState (\<lambda>c. c\<lparr>selectedServer := newServer\<rparr>)) (\<lambda>u.
         saveSettings srv s (no_updates\<lparr>server_url := Some newServer\<rparr>)))
      else ret ())))"


text \<open>The options the \<^verbatim>\<open>Select\<close> is rendered with (the trash icon of a custom option is
  left out).\<close>

definition serverOptions :: "component \<Rightarrow> server_option list" where
  "serverOptions s =
     DEFAULT_SERVERS @ map (\<lambda>url. \<lparr>option_label = url, option_value = url\<rparr>) (customServers s)"

subsection \<open>handleSync\<close>

text \<open>The body of the \<^verbatim>\<open>try\<close> block. \<open>onSync\<close> is the optional callback property.\<close>

definition handleSync_try ::
  "'w services \<Rightarrow> ('w \<Rightarrow> unit outcome \<times> 'w) option \<Rightarrow> component \<Rightarrow> ('w, unit) proc" where
  "handleSync_try srv onSync s =
     andThen (emit (ConsoleLog ''Starting sync process...'')) (\<lambda>u.
     andThen (call (InitializeCrypto (seedPhrase s)) (initializeCrypto srv (seedPhrase s))) (\<lambda>u.
     andThen (emit (ConsoleLog ''Crypto initialized'')) (\<lambda>u.
     andThen (call (HealthCheck (selectedServer s)) (healthCheck srv (selectedServer s))) (\<lambda>isHealthy.
     andThen (if \<not> isHealthy
              then throw (JsError (''Server '' @ selectedServer s @ '' is not healthy''))
              else ret ()) (\<lambda>u.
     andThen (emit (ConsoleLog ''Server health check passed'')) (\<lambda>u.
     andThen (call (SyncWithServer (selectedServer s)) (syncWithServer srv (selectedServer s))) (\<lambda>u.
     andThen (emit (ConsoleLog ''Sync completed'')) (\<lambda>u.
     andThen (call (SaveSyncSettings (no_updates\<lparr>seed_phrase := Some (seedPhrase s)\<rparr>))
                (saveSyncSettings srv (no_updates\<lparr>seed_phrase := Some (seedPhrase s)\<rparr>))) (\<lambda>u.
     andThen (emit (ConsoleLog ''Settings saved'')) (\<lambda>u.
     andThen (case onSync of None \<Rightarrow> ret () | Some f \<Rightarrow> call OnSync f) (\<lambda>u.
     notifications_show
       \<lparr>title = ''Success'', message = ''Notes synced successfully'', color = ''green'',
        autoClose = None\<rparr>)))))))))))"

definition handleSync ::
  "'w services \<Rightarrow> ('w \<Rightarrow> unit outcome \<times> 'w) option \<Rightarrow> component \<Rightarrow> ('w, unit) proc" where
  "handleSync srv onSync s =
     (if seedPhrase s = [] then
        notifications_show
          \<lparr>title = ''Error'', message = ''Please enter a seed phrase'', color = ''red'',
           autoClose = None\<rparr>
      else
        andThen (setState (\<lambda>c. c\<lparr>syncing := True\<rparr>)) (\<lambda>u.
        try_finally
          (try_catch
             (handleSync_try srv onSync s)
             (\<lambda>error.
                andThen (emit (ConsoleError ''Sync error:'' error)) (\<lambda>u.
                notifications_show
                  \<lparr>title = ''Error'',
                   message = (case error of JsError msg \<Rightarrow> msg | NonError \<Rightarrow> ''Failed to sync notes''),
                   color = ''red'', autoClose = Some False\<rparr>)))
          (setState (\<lambda>c. c\<lparr>syncing := False\<rparr>))))"

subsection \<open>The seed-phrase field\<close>

text \<open>The \<^verbatim>\<open>onChange\<close> of the \<^verbatim>\<open>PasswordInput\<close>; \<open>v\<close> is
  \<^verbatim>\<open>e.currentTarget.value\<close>.\<close>

definition seedPhrase_onChange :: "'w services \<Rightarrow> component \<Rightarrow> string \<Rightarrow> ('w, unit) proc" where
  "seedPhrase_onChange srv s v =
     andThen (setState (\<lambda>c. c\<lparr>seedPhrase := v\<rparr>)) (\<lambda>u.
     saveSettings srv s (no_updates\<lparr>seed_phrase := Some v\<rparr>))"

subsection \<open>The server selection\<close>

text \<open>The selected server is a default server or a custom server.\<close>

definition selection_known :: "component \<Rightarrow> bool" where
  "selection_known s =
     (list_ex (\<lambda>d. option_value d = selectedServer s) DEFAULT_SERVERS
      \<or> selectedServer s \<in> set (customServers s))"

subsection \<open>Concrete collaborators and renderings\<close>

text \<open>Collaborators with no state of their own in which every call succeeds and the server
  is healthy. \<open>sample_URL\<close> stands for the platform's URL constructor on the inputs used
  below: it accepts a string that continues after \<^verbatim>\<open>http://\<close> or \<^verbatim>\<open>https://\<close> and
  rejects the empty string, as \<^verbatim>\<open>new URL\<close> does.\<close>

definition sample_settings :: StoredSettings where
  "sample_settings =
     \<lparr>stored_auto_sync = True, stored_server_url = ''http://localhost:3222'',
      stored_custom_servers = Some [], stored_seed_phrase = Some [],
      stored_sync_interval = Some 5\<rparr>"

definition sample_URL :: "string \<Rightarrow> unit outcome" where
  "sample_URL url =
     (if (take 8 url = ''https://'' \<and> 8 < length url) \<or> (take 7 url = ''http://'' \<and> 7 < length url)
      then Returns ()
      else Throws (JsError ''Invalid URL''))"

definition sample_services :: "unit services" where
  "sample_services =
     \<lparr>getSyncSettings = (\<lambda>w. (Returns sample_settings, w)),
      saveSyncSettings = (\<lambda>obj w. (Returns (), w)),
      initializeCrypto = (\<lambda>phrase w. (Returns (), w)),
      healthCheck = (\<lambda>url w. (Returns True, w)),
      syncWithServer = (\<lambda>url w. (Returns (), w)),
      URL_constructor = sample_URL\<rparr>"

text \<open>The same, with an unhealthy server; with a sync that throws an \<^verbatim>\<open>Error\<close>; with a
  sync that throws a value that is not an \<^verbatim>\<open>Error\<close>.\<close>

definition unhealthy_services :: "unit services" where
  "unhealthy_services = sample_services\<lparr>healthCheck := (\<lambda>url w. (Returns False, w))\<rparr>"

definition offline_services :: "unit services" where
  "offline_services =
     sample_services\<lparr>syncWithServer := (\<lambda>url w. (Throws (JsError ''Failed to fetch''), w))\<rparr>"

definition odd_services :: "unit services" where
  "odd_services = sample_services\<lparr>syncWithServer := (\<lambda>url w. (Throws NonError, w))\<rparr>"

definition sample_component :: component where
  "sample_component = initial_component\<lparr>seedPhrase := ''abandon ability able''\<rparr>"

definition custom_component :: component where
  "custom_component =
     initial_component
       \<lparr>customServers := [''https://notes.example.org''],
        selectedServer := ''https://notes.example.org''\<rparr>"

text \<open>The rendering after the user has typed a URL into the add-server dialog, and the one
  after the dialog's button has then been pressed.\<close>

definition typed_component :: component where
  "typed_component =
     ui (exec (handleUrlChange sample_services ''https://notes.example.org'') initial_component ())"

definition added_component :: component where
  "added_component =
     ui (exec (handleAddServer sample_services typed_component) typed_component ())"

text \<open>Collaborators whose state is the stored settings object: a read returns it and a
  write replaces, key by key, what the written object names. It stands for
  \<^verbatim>\<open>WebStorageService\<close> in the closed examples only. \<open>unreadable_services\<close> is the
  same store with a read that throws.\<close>

definition store_save :: "SyncSettingsType \<Rightarrow> StoredSettings \<Rightarrow> StoredSettings" where
  "store_save obj st =
     \<lparr>stored_auto_sync = (case auto_sync obj of Some v \<Rightarrow> v | None \<Rightarrow> stored_auto_sync st),
      stored_server_url = (case server_url obj of Some v \<Rightarrow> v | None \<Rightarrow> stored_server_url st),
      stored_custom_servers =
        (case custom_servers obj of Some v \<Rightarrow> Some v | None \<Rightarrow> stored_custom_servers st),
      stored_seed_phrase =
        (case seed_phrase obj of Some v \<Rightarrow> Some v | None \<Rightarrow> stored_seed_phrase st),
      stored_sync_interval =
        (case sync_interval obj of Some v \<Rightarrow> Some v | None \<Rightarrow> stored_sync_interval st)\<rparr>"

definition store_services :: "StoredSettings services" where
  "store_services =
     \<lparr>getSyncSettings = (\<lambda>st. (Returns st, st)),
      saveSyncSettings = (\<lambda>obj st. (Returns (), store_save obj st)),
      initializeCrypto = (\<lambda>phrase st. (Returns (), st)),
      healthCheck = (\<lambda>url st. (Returns True, st)),
      syncWithServer = (\<lambda>url st. (Returns (), st)),
      URL_constructor = sample_URL\<rparr>"

definition unreadable_services :: "StoredSettings services" where
  "unreadable_services =
     store_services\<lparr>getSyncSettings := (\<lambda>st. (Throws (JsError ''The operation failed''), st))\<rparr>"

text \<open>The stored settings that go with \<open>custom_component\<close>, and stored settings whose
  \<^verbatim>\<open>server_url\<close> is neither a default nor one of their custom servers.\<close>

definition custom_store :: StoredSettings where
  "custom_store =
     \<lparr>stored_auto_sync = False, stored_server_url = ''https://notes.example.org'',
      stored_custom_servers = Some [''https://notes.example.org''], stored_seed_phrase = Some [],
      stored_sync_interval = Some 5\<rparr>"

definition orphan_store :: StoredSettings where
  "orphan_store =
     \<lparr>stored_auto_sync = False, stored_server_url = ''https://notes.example.org'',
      stored_custom_servers = Some [], stored_seed_phrase = Some [],
      stored_sync_interval = Some 5\<rparr>"

section \<open>Properties\<close>

lemmas proc_defs = ret_def throw_def andThen_def try_catch_def try_finally_def emit_def
  setState_def call_def notifications_show_def exec_def

lemmas store_defs = store_services_def unreadable_services_def store_save_def custom_store_def
  orphan_store_def

lemmas sample_defs = sample_services_def sample_URL_def sample_settings_def
  unhealthy_services_def offline_services_def odd_services_def sample_component_def
  custom_component_def initial_component_def DEFAULT_SERVERS_def no_updates_def

subsection \<open>saveSettings\<close>

lemma saveSettings_returns: "fst (saveSettings srv s updates m) = Returns ()"
  by (simp add: saveSettings_def proc_defs Let_def split: prod.split outcome.split)

lemma saveSettings_ui: "ui (snd (saveSettings srv s updates m)) = ui m"
  by (simp add: saveSettings_def proc_defs Let_def split: prod.split outcome.split)

text \<open>When the stored settings cannot be read, \<^verbatim>\<open>saveSyncSettings\<close> is not called: the
  store is in the state the failed read left it in, and the failure is shown.\<close>

lemma saveSettings_read_fails:
  "getSyncSettings srv (world m) = (Throws e, w1) \<Longrightarrow>
   saveSettings srv s updates m =
     (Returns (),
      m\<lparr>world := w1,
        trace := trace m @
          [GetSyncSettings (Throws e),
           Notify \<lparr>title = ''Error'', message = ''Failed to save settings'', color = ''red'',
                   autoClose = None\<rparr>]\<rparr>)"
  by (simp add: saveSettings_def proc_defs)

text \<open>When the write throws, the failure is shown as well.\<close>

lemma saveSettings_write_fails:
  assumes "getSyncSettings srv (world m) = (Returns cur, w1)"
    and "obj =
      \<lparr>auto_sync = (case auto_sync updates of Some v \<Rightarrow> Some v | None \<Rightarrow> Some (autoSync s)),
       server_url = (case server_url updates of Some v \<Rightarrow> Some v | None \<Rightarrow> Some (selectedServer s)),
       custom_servers = (case custom_servers updates of Some v \<Rightarrow> Some v | None \<Rightarrow> Some (customServers s)),
       seed_phrase = (case seed_phrase updates of Some v \<Rightarrow> Some v | None \<Rightarrow> Some (seedPhrase s)),
       sync_interval = stored_sync_interval cur\<rparr>"
    and "saveSyncSettings srv obj w1 = (Throws e, w2)"
  shows "saveSettings srv s updates m =
     (Returns (),
      m\<lparr>world := w2,
        trace := trace m @
          [GetSyncSettings (Returns cur), SaveSyncSettings obj (Throws e),
           Notify \<lparr>title = ''Error'', message = ''Failed to save settings'', color = ''red'',
                   autoClose = None\<rparr>]\<rparr>)"
  using assms by (simp add: saveSettings_def proc_defs Let_def)

text \<open>
  C4, as the code has it. \<open>m\<close> is the component at the moment of the call: \<open>ui m\<close> are
  the cells as they now stand, \<open>s\<close> the cells the calling handler closed over. For every
  update object: if each cell behind a key the update does not name still has the value
  the handler closed over, the stored settings can be read and the write returns, then
  \<^verbatim>\<open>saveSettings\<close> makes exactly one read and one write, and the store is left in the
  state that write produced. The written object has all five keys: \<^verbatim>\<open>auto_sync\<close>,
  \<^verbatim>\<open>server_url\<close>, \<^verbatim>\<open>custom_servers\<close> and \<^verbatim>\<open>seed_phrase\<close> hold the update's value
  where the update names the key and the cell's current value where it does not;
  \<^verbatim>\<open>sync_interval\<close> is the stored one, whatever the update says.
\<close>

theorem saveSettings_persists_update:
  assumes "getSyncSettings srv (world m) = (Returns cur, w1)"
    and "auto_sync updates = None \<longrightarrow> autoSync s = autoSync (ui m)"
    and "server_url updates = None \<longrightarrow> selectedServer s = selectedServer (ui m)"
    and "custom_servers updates = None \<longrightarrow> customServers s = customServers (ui m)"
    and "seed_phrase updates = None \<longrightarrow> seedPhrase s = seedPhrase (ui m)"
    and "obj =
      \<lparr>auto_sync = Some (case auto_sync updates of Some v \<Rightarrow> v | None \<Rightarrow> autoSync (ui m)),
       server_url = Some (case server_url updates of Some v \<Rightarrow> v | None \<Rightarrow> selectedServer (ui m)),
       custom_servers =
         Some (case custom_servers updates of Some v \<Rightarrow> v | None \<Rightarrow> customServers (ui m)),
       seed_phrase = Some (case seed_phrase updates of Some v \<Rightarrow> v | None \<Rightarrow> seedPhrase (ui m)),
       sync_interval = stored_sync_interval cur\<rparr>"
    and "saveSyncSettings srv obj w1 = (Returns (), w2)"
  shows "saveSettings srv s updates m =
     (Returns (),
      m\<lparr>world := w2,
        trace := trace m @ [GetSyncSettings (Returns cur), SaveSyncSettings obj (Returns ())]\<rparr>)"
proof -
  have built:
    "\<lparr>auto_sync = (case auto_sync updates of Some v \<Rightarrow> Some v | None \<Rightarrow> Some (autoSync s)),
      server_url = (case server_url updates of Some v \<Rightarrow> Some v | None \<Rightarrow> Some (selectedServer s)),
      custom_servers = (case custom_servers updates of Some v \<Rightarrow> Some v | None \<Rightarrow> Some (customServers s)),
      seed_phrase = (case seed_phrase updates of Some v \<Rightarrow> Some v | None \<Rightarrow> Some (seedPhrase s)),
      sync_interval = stored_sync_interval cur\<rparr> = obj"
    using assms(2-6) by (simp split: option.split)
  show ?thesis
    using assms(1) assms(7)
    by (simp add: saveSettings_def proc_defs Let_def built)
qed

theorem saveSettings_persists_update_witness:
  "saveSettings store_services sample_component
     (no_updates\<lparr>server_url := Some ''http://localhost:3222''\<rparr>)
     \<lparr>ui = sample_component, world = sample_settings, trace = []\<rparr> =
   (Returns (),
    \<lparr>ui = sample_component,
     world =
       \<lparr>stored_auto_sync = False, stored_server_url = ''http://localhost:3222'',
        stored_custom_servers = Some [], stored_seed_phrase = Some ''abandon ability able'',
        stored_sync_interval = Some 5\<rparr>,
     trace =
       [GetSyncSettings (Returns sample_settings),
        SaveSyncSettings
          \<lparr>auto_sync = Some False, server_url = Some ''http://localhost:3222'',
           custom_servers = Some [], seed_phrase = Some ''abandon ability able'',
           sync_interval = Some 5\<rparr>
          (Returns ())]\<rparr>)"
proof -
  let ?m = "\<lparr>ui = sample_component, world = sample_settings, trace = []\<rparr>"
  let ?u = "no_updates\<lparr>server_url := Some ''http://localhost:3222''\<rparr>"
  let ?obj = "\<lparr>auto_sync = Some False, server_url = Some ''http://localhost:3222'',
           custom_servers = Some [], seed_phrase = Some ''abandon ability able'',
           sync_interval = Some 5\<rparr>"
  let ?w2 = "\<lparr>stored_auto_sync = False, stored_server_url = ''http://localhost:3222'',
        stored_custom_servers = Some [], stored_seed_phrase = Some ''abandon ability able'',
        stored_sync_interval = Some 5\<rparr>"
  have h1: "getSyncSettings store_services (world ?m) = (Returns sample_settings, sample_settings)"
    by (simp add: store_defs)
  have h2: "auto_sync ?u = None \<longrightarrow> autoSync sample_component = autoSync (ui ?m)"
    by simp
  have h3: "server_url ?u = None \<longrightarrow> selectedServer sample_component = selectedServer (ui ?m)"
    by simp
  have h4: "custom_servers ?u = None \<longrightarrow> customServers sample_component = customServers (ui ?m)"
    by simp
  have h5: "seed_phrase ?u = None \<longrightarrow> seedPhrase sample_component = seedPhrase (ui ?m)"
    by simp
  have h6: "?obj =
      \<lparr>auto_sync = Some (case auto_sync ?u of Some v \<Rightarrow> v | None \<Rightarrow> autoSync (ui ?m)),
       server_url = Some (case server_url ?u of Some v \<Rightarrow> v | None \<Rightarrow> selectedServer (ui ?m)),
       custom_servers =
         Some (case custom_servers ?u of Some v \<Rightarrow> v | None \<Rightarrow> customServers (ui ?m)),
       seed_phrase = Some (case seed_phrase ?u of Some v \<Rightarrow> v | None \<Rightarrow> seedPhrase (ui ?m)),
       sync_interval = stored_sync_interval sample_settings\<rparr>"
    by (simp add: sample_defs)
  have h7: "saveSyncSettings store_services ?obj sample_settings = (Returns (), ?w2)"
    by (simp add: store_defs sample_defs)
  from saveSettings_persists_update [OF h1 h2 h3 h4 h5 h6 h7] show ?thesis
    by simp
qed

text \<open>C4 as the specification words it fails: with a store that cannot be read, an update
  that names \<^verbatim>\<open>auto_sync\<close> is not written; the stored value stays as it was.\<close>

theorem saveSettings_unreadable_store:
  "stored_auto_sync sample_settings = True \<and>
   saveSettings unreadable_services sample_component (no_updates\<lparr>auto_sync := Some False\<rparr>)
     \<lparr>ui = sample_component, world = sample_settings, trace = []\<rparr> =
   (Returns (),
    \<lparr>ui = sample_component, world = sample_settings,
     trace =
       [GetSyncSettings (Throws (JsError ''The operation failed'')),
        Notify \<lparr>title = ''Error'', message = ''Failed to save settings'', color = ''red'',
                autoClose = None\<rparr>]\<rparr>)"
  by (simp add: saveSettings_def proc_defs store_defs sample_settings_def)

subsection \<open>handleSync\<close>

lemmas handleSync_defs = handleSync_def handleSync_try_def proc_defs

text \<open>
  C9. With an empty seed phrase \<^verbatim>\<open>handleSync\<close> shows the notification that asks for a
  seed phrase and does nothing else: the trace holds no collaborator call (no key
  derivation, no health check, no sync, no settings write), the collaborators' state and
  every cell of the component are as before.
\<close>

theorem handleSync_empty_seed:
  "seedPhrase s = [] \<Longrightarrow>
   exec (handleSync srv onSync s) s w =
     \<lparr>ui = s, world = w,
      trace = [Notify \<lparr>title = ''Error'', message = ''Please enter a seed phrase'',
                       color = ''red'', autoClose = None\<rparr>]\<rparr>"
  by (simp add: handleSync_defs)

theorem handleSync_empty_seed_witness:
  "seedPhrase initial_component = [] \<and>
   exec (handleSync sample_services None initial_component) initial_component () =
     \<lparr>ui = initial_component, world = (),
      trace = [Notify \<lparr>title = ''Error'', message = ''Please enter a seed phrase'',
                       color = ''red'', autoClose = None\<rparr>]\<rparr>"
proof -
  have h: "seedPhrase initial_component = []"
    by (simp add: initial_component_def)
  show ?thesis
    using h handleSync_empty_seed [OF h, of sample_services None "()"] by simp
qed

text \<open>
  C8. \<^verbatim>\<open>handleSync\<close> always returns normally (no thrown value leaves it), and the
  \<^verbatim>\<open>syncing\<close> cell is false afterwards: on every path through the \<^verbatim>\<open>try\<close> block, by
  the \<^verbatim>\<open>finally\<close> clause, whatever the collaborators return or throw; and on the early
  return for an empty seed phrase, which does not write the cell, whenever the cell was
  false at the call (it is false initially and \<^verbatim>\<open>handleSync\<close> is its only writer).
\<close>

theorem handleSync_resets_syncing:
  "seedPhrase s \<noteq> [] \<or> \<not> syncing s \<Longrightarrow>
   fst (handleSync srv onSync s \<lparr>ui = s, world = w, trace = []\<rparr>) = Returns () \<and>
   \<not> syncing (ui (exec (handleSync srv onSync s) s w))"
  by (auto simp add: handleSync_defs
      split: prod.split outcome.split option.split thrown.split)

theorem handleSync_resets_syncing_witness:
  "seedPhrase sample_component = ''abandon ability able'' \<and>
   fst (handleSync offline_services None sample_component
          \<lparr>ui = sample_component, world = (), trace = []\<rparr>) = Returns () \<and>
   \<not> syncing (ui (exec (handleSync offline_services None sample_component) sample_component ()))"
proof -
  have p: "seedPhrase sample_component = ''abandon ability able''"
    by (simp add: sample_defs)
  then have h: "seedPhrase sample_component \<noteq> [] \<or> \<not> syncing sample_component"
    by simp
  from p handleSync_resets_syncing [OF h, of offline_services None "()"] show ?thesis
    by blast
qed

text \<open>\<^verbatim>\<open>handleSync\<close> never reads the \<^verbatim>\<open>syncing\<close> cell: called on a rendering in which
  the cell is true, it makes the same calls as on one in which it is false.\<close>

lemma handleSync_ignores_syncing:
  "trace (exec (handleSync srv onSync (s\<lparr>syncing := True\<rparr>)) (s\<lparr>syncing := True\<rparr>) w) =
   trace (exec (handleSync srv onSync (s\<lparr>syncing := False\<rparr>)) (s\<lparr>syncing := False\<rparr>) w)"
  by (simp add: handleSync_defs split: prod.split outcome.split option.split thrown.split)

text \<open>
  C3. In every run of \<^verbatim>\<open>handleSync\<close> in which the health check returned false, the check
  was the one of the selected server, \<^verbatim>\<open>syncWithServer\<close> was not called, the settings
  write after the sync (\<^verbatim>\<open>saveSyncSettings\<close> with the seed phrase) was not made, and the
  one notification shown is the error whose message names the server as not healthy.
\<close>

theorem handleSync_unhealthy_server:
  assumes "HealthCheck url (Returns False) \<in> set (trace (exec (handleSync srv onSync s) s w))"
  shows "url = selectedServer s \<and>
   (\<forall>url' r. SyncWithServer url' r \<notin> set (trace (exec (handleSync srv onSync s) s w))) \<and>
   (\<forall>obj r. SaveSyncSettings obj r \<notin> set (trace (exec (handleSync srv onSync s) s w))) \<and>
   shown (trace (exec (handleSync srv onSync s) s w)) =
     [\<lparr>title = ''Error'', message = ''Server '' @ selectedServer s @ '' is not healthy'',
       color = ''red'', autoClose = Some False\<rparr>]"
proof -
  have "HealthCheck url (Returns False) \<in> set (trace (exec (handleSync srv onSync s) s w)) \<longrightarrow>
   url = selectedServer s \<and>
   (\<forall>url' r. SyncWithServer url' r \<notin> set (trace (exec (handleSync srv onSync s) s w))) \<and>
   (\<forall>obj r. SaveSyncSettings obj r \<notin> set (trace (exec (handleSync srv onSync s) s w))) \<and>
   shown (trace (exec (handleSync srv onSync s) s w)) =
     [\<lparr>title = ''Error'', message = ''Server '' @ selectedServer s @ '' is not healthy'',
       color = ''red'', autoClose = Some False\<rparr>]"
    by (auto simp add: handleSync_defs shown_def
        split: prod.split outcome.split option.split thrown.split)
  from this assms show ?thesis by (rule mp)
qed

theorem handleSync_unhealthy_server_witness:
  "HealthCheck ''https://notes-sync.0xgingi.com'' (Returns False)
     \<in> set (trace (exec (handleSync unhealthy_services None sample_component) sample_component ())) \<and>
   ''https://notes-sync.0xgingi.com'' = selectedServer sample_component \<and>
   (\<forall>url' r. SyncWithServer url' r
     \<notin> set (trace (exec (handleSync unhealthy_services None sample_component) sample_component ()))) \<and>
   (\<forall>obj r. SaveSyncSettings obj r
     \<notin> set (trace (exec (handleSync unhealthy_services None sample_component) sample_component ()))) \<and>
   shown (trace (exec (handleSync unhealthy_services None sample_component) sample_component ())) =
     [\<lparr>title = ''Error'',
       message = ''Server '' @ selectedServer sample_component @ '' is not healthy'',
       color = ''red'', autoClose = Some False\<rparr>] \<and>
   ''Server '' @ selectedServer sample_component @ '' is not healthy'' =
     ''Server https://notes-sync.0xgingi.com is not healthy''"
proof -
  have h: "HealthCheck ''https://notes-sync.0xgingi.com'' (Returns False)
     \<in> set (trace (exec (handleSync unhealthy_services None sample_component) sample_component ()))"
    by (simp add: handleSync_defs sample_defs)
  have msg: "''Server '' @ selectedServer sample_component @ '' is not healthy'' =
     ''Server https://notes-sync.0xgingi.com is not healthy''"
    by (simp add: sample_defs)
  from h handleSync_unhealthy_server [OF h] msg show ?thesis
    by blast
qed



text \<open>Whatever a collaborator throws inside the \<^verbatim>\<open>try\<close> block reaches the \<^verbatim>\<open>catch\<close>
  clause as it is.\<close>

lemma handleSync_catches_thrown:
  assumes "InitializeCrypto p (Throws e) \<in> set (trace (exec (handleSync srv onSync s) s w))
   \<or> HealthCheck url (Throws e) \<in> set (trace (exec (handleSync srv onSync s) s w))
   \<or> SyncWithServer url (Throws e) \<in> set (trace (exec (handleSync srv onSync s) s w))
   \<or> SaveSyncSettings obj (Throws e) \<in> set (trace (exec (handleSync srv onSync s) s w))
   \<or> OnSync (Throws e) \<in> set (trace (exec (handleSync srv onSync s) s w))"
  shows "ConsoleError ''Sync error:'' e \<in> set (trace (exec (handleSync srv onSync s) s w))"
proof -
  have "InitializeCrypto p (Throws e) \<in> set (trace (exec (handleSync srv onSync s) s w))
   \<or> HealthCheck url (Throws e) \<in> set (trace (exec (handleSync srv onSync s) s w))
   \<or> SyncWithServer url (Throws e) \<in> set (trace (exec (handleSync srv onSync s) s w))
   \<or> SaveSyncSettings obj (Throws e) \<in> set (trace (exec (handleSync srv onSync s) s w))
   \<or> OnSync (Throws e) \<in> set (trace (exec (handleSync srv onSync s) s w)) \<longrightarrow>
   ConsoleError ''Sync error:'' e \<in> set (trace (exec (handleSync srv onSync s) s w))"
    by (auto simp add: handleSync_defs
        split: prod.split outcome.split option.split thrown.split)
  from this assms show ?thesis by (rule mp)
qed

text \<open>So does the \<^verbatim>\<open>Error\<close> that \<^verbatim>\<open>handleSync\<close> itself throws after a health check that
  returned false.\<close>

lemma handleSync_catches_unhealthy:
  assumes "HealthCheck url (Returns False) \<in> set (trace (exec (handleSync srv onSync s) s w))"
  shows "ConsoleError ''Sync error:'' (JsError (''Server '' @ url @ '' is not healthy''))
     \<in> set (trace (exec (handleSync srv onSync s) s w))"
proof -
  have "HealthCheck url (Returns False) \<in> set (trace (exec (handleSync srv onSync s) s w)) \<longrightarrow>
    ConsoleError ''Sync error:'' (JsError (''Server '' @ url @ '' is not healthy''))
     \<in> set (trace (exec (handleSync srv onSync s) s w))"
    by (auto simp add: handleSync_defs
        split: prod.split outcome.split option.split thrown.split)
  from this assms show ?thesis by (rule mp)
qed

text \<open>
  C6, as the code has it. Whenever a run of \<^verbatim>\<open>handleSync\<close> fails, that is, its
  \<^verbatim>\<open>catch\<close> clause runs with the thrown value \<open>e\<close> (which the clause first writes to the
  console), the user is shown exactly one notification: the title is Error, the colour
  red, it does not close by itself, and its message is the message of \<open>e\<close> itself when
  \<open>e\<close> is an \<^verbatim>\<open>Error\<close>; only for a thrown value that is not an \<^verbatim>\<open>Error\<close> is it the
  fixed text.
\<close>

theorem handleSync_failure_message:
  assumes "ConsoleError ''Sync error:'' e \<in> set (trace (exec (handleSync srv onSync s) s w))"
  shows "shown (trace (exec (handleSync srv onSync s) s w)) =
     [\<lparr>title = ''Error'',
       message = (case e of JsError msg \<Rightarrow> msg | NonError \<Rightarrow> ''Failed to sync notes''),
       color = ''red'', autoClose = Some False\<rparr>]"
proof -
  have "ConsoleError ''Sync error:'' e \<in> set (trace (exec (handleSync srv onSync s) s w)) \<longrightarrow>
   shown (trace (exec (handleSync srv onSync s) s w)) =
     [\<lparr>title = ''Error'',
       message = (case e of JsError msg \<Rightarrow> msg | NonError \<Rightarrow> ''Failed to sync notes''),
       color = ''red'', autoClose = Some False\<rparr>]"
    by (auto simp add: handleSync_defs shown_def
        split: prod.split outcome.split option.split thrown.split)
  from this assms show ?thesis by (rule mp)
qed

theorem handleSync_failure_message_witness:
  "ConsoleError ''Sync error:'' NonError
     \<in> set (trace (exec (handleSync odd_services None sample_component) sample_component ())) \<and>
   shown (trace (exec (handleSync odd_services None sample_component) sample_component ())) =
     [\<lparr>title = ''Error'', message = ''Failed to sync notes'', color = ''red'',
       autoClose = Some False\<rparr>]"
proof -
  have h: "ConsoleError ''Sync error:'' NonError
     \<in> set (trace (exec (handleSync odd_services None sample_component) sample_component ()))"
    by (simp add: handleSync_defs sample_defs)
  show ?thesis
    using h handleSync_failure_message [OF h] by simp
qed

text \<open>C6 as the specification words it fails: when \<^verbatim>\<open>syncWithServer\<close> throws an
  \<^verbatim>\<open>Error\<close> whose message is the transport's own, that very message is what the user is
  shown.\<close>

theorem handleSync_shows_raw_message:
  "syncWithServer offline_services (selectedServer sample_component) () =
     (Throws (JsError ''Failed to fetch''), ()) \<and>
   shown (trace (exec (handleSync offline_services None sample_component) sample_component ())) =
     [\<lparr>title = ''Error'', message = ''Failed to fetch'', color = ''red'',
       autoClose = Some False\<rparr>]"
  by (simp add: handleSync_defs shown_def sample_defs)


subsection \<open>The seed-phrase field\<close>

text \<open>Whatever the store does, a change of the field sets the \<^verbatim>\<open>seedPhrase\<close> cell to the
  string typed, and derives no key, checks no server and starts no sync.\<close>

lemma seedPhrase_onChange_no_sync:
  "seedPhrase (ui (exec (seedPhrase_onChange srv s v) s w)) = v \<and>
   (\<forall>p r. InitializeCrypto p r \<notin> set (trace (exec (seedPhrase_onChange srv s v) s w))) \<and>
   (\<forall>url r. HealthCheck url r \<notin> set (trace (exec (seedPhrase_onChange srv s v) s w))) \<and>
   (\<forall>url r. SyncWithServer url r \<notin> set (trace (exec (seedPhrase_onChange srv s v) s w)))"
  by (auto simp add: seedPhrase_onChange_def saveSettings_def proc_defs Let_def
      split: prod.split outcome.split)

text \<open>
  C10, as the code has it. For every string typed into the seed-phrase field, valid
  phrase or not: if the stored settings can be read and the write returns, the whole effect
  of the change is that the \<^verbatim>\<open>seedPhrase\<close> cell holds the string, the settings have been
  read once and written once, with an object whose \<^verbatim>\<open>seed_phrase\<close> is the string, and the
  store is in the state that write produced. Nothing else is called: no validation, no key
  derivation, no health check, no sync.
\<close>

theorem seedPhrase_onChange_persists:
  assumes "getSyncSettings srv w = (Returns cur, w1)"
    and "obj =
      \<lparr>auto_sync = Some (autoSync s), server_url = Some (selectedServer s),
       custom_servers = Some (customServers s), seed_phrase = Some v,
       sync_interval = stored_sync_interval cur\<rparr>"
    and "saveSyncSettings srv obj w1 = (Returns (), w2)"
  shows "exec (seedPhrase_onChange srv s v) s w =
     \<lparr>ui = s\<lparr>seedPhrase := v\<rparr>, world = w2,
      trace = [GetSyncSettings (Returns cur), SaveSyncSettings obj (Returns ())]\<rparr>"
  using assms
  by (simp add: seedPhrase_onChange_def saveSettings_def proc_defs Let_def no_updates_def)

theorem seedPhrase_onChange_persists_witness:
  "exec (seedPhrase_onChange store_services sample_component ''aban'') sample_component
     sample_settings =
   \<lparr>ui = sample_component\<lparr>seedPhrase := ''aban''\<rparr>,
    world = sample_settings\<lparr>stored_auto_sync := False,
      stored_server_url := ''https://notes-sync.0xgingi.com'', stored_seed_phrase := Some ''aban''\<rparr>,
    trace =
      [GetSyncSettings (Returns sample_settings),
       SaveSyncSettings
         \<lparr>auto_sync = Some False, server_url = Some ''https://notes-sync.0xgingi.com'',
          custom_servers = Some [], seed_phrase = Some ''aban'', sync_interval = Some 5\<rparr>
         (Returns ())]\<rparr>"
proof -
  let ?obj = "\<lparr>auto_sync = Some False, server_url = Some ''https://notes-sync.0xgingi.com'',
          custom_servers = Some [], seed_phrase = Some ''aban'', sync_interval = Some 5\<rparr>"
  let ?w2 = "sample_settings\<lparr>stored_auto_sync := False,
      stored_server_url := ''https://notes-sync.0xgingi.com'', stored_seed_phrase := Some ''aban''\<rparr>"
  have h1: "getSyncSettings store_services sample_settings = (Returns sample_settings, sample_settings)"
    by (simp add: store_defs)
  have h2: "?obj =
      \<lparr>auto_sync = Some (autoSync sample_component),
       server_url = Some (selectedServer sample_component),
       custom_servers = Some (customServers sample_component), seed_phrase = Some ''aban'',
       sync_interval = stored_sync_interval sample_settings\<rparr>"
    by (simp add: sample_defs)
  have h3: "saveSyncSettings store_services ?obj sample_settings = (Returns (), ?w2)"
    by (simp add: store_defs sample_defs)
  from seedPhrase_onChange_persists [OF h1 h2 h3] show ?thesis .
qed

text \<open>C10 as the specification words it fails: with a store that cannot be read, the typed
  string reaches the cell and not the stored settings, whose seed phrase stays as it
  was.\<close>

theorem seedPhrase_onChange_unreadable_store:
  "stored_seed_phrase sample_settings = Some [] \<and>
   exec (seedPhrase_onChange unreadable_services sample_component ''aban'') sample_component
     sample_settings =
   \<lparr>ui = sample_component\<lparr>seedPhrase := ''aban''\<rparr>, world = sample_settings,
    trace =
      [GetSyncSettings (Throws (JsError ''The operation failed'')),
       Notify \<lparr>title = ''Error'', message = ''Failed to save settings'', color = ''red'',
               autoClose = None\<rparr>]\<rparr>"
  by (simp add: seedPhrase_onChange_def saveSettings_def proc_defs store_defs
      sample_settings_def)

subsection \<open>The server selection\<close>

lemma default_server_known [simp]:
  "list_ex (\<lambda>d. option_value d = option_value (DEFAULT_SERVERS ! 0)) DEFAULT_SERVERS"
  by (simp add: DEFAULT_SERVERS_def)

lemma handleUrlChange_ui:
  "ui (exec (handleUrlChange srv v) s w) = s\<lparr>newServerUrl := v, isValidUrl := validateUrl srv v\<rparr>"
  by (simp add: handleUrlChange_def proc_defs)

lemma handleAddServer_ui:
  "ui (exec (handleAddServer srv s) s w) =
     (if isValidUrl s \<and> newServerUrl s \<notin> set (customServers s)
         \<and> \<not> list_ex (\<lambda>d. option_value d = newServerUrl s) DEFAULT_SERVERS
      then s\<lparr>customServers := customServers s @ [newServerUrl s],
             selectedServer := newServerUrl s, newServerUrl := [], showAddServer := False\<rparr>
      else s)"
  by (simp add: handleAddServer_def saveSettings_def proc_defs Let_def
      split: prod.split outcome.split)



lemma loadSettings_ui:
  "ui (exec (loadSettings srv) s w) =
     (case fst (getSyncSettings srv w) of
        Returns st \<Rightarrow>
          s\<lparr>autoSync := stored_auto_sync st, selectedServer := stored_server_url st,
            customServers := (case stored_custom_servers st of Some urls \<Rightarrow> urls | None \<Rightarrow> []),
            seedPhrase := (case stored_seed_phrase st of Some phrase \<Rightarrow> phrase | None \<Rightarrow> [])\<rparr>
      | Throws e \<Rightarrow> s)"
  by (simp add: loadSettings_def proc_defs split: prod.split outcome.split)




text \<open>\<^verbatim>\<open>loadSettings\<close> writes both cells as well, from the stored settings and without a
  check: stored settings whose \<^verbatim>\<open>server_url\<close> is neither a default nor one of their
  custom servers give a rendering whose selection is neither.\<close>

lemma loadSettings_selects_unknown:
  "selectedServer (ui (exec (loadSettings store_services) initial_component orphan_store)) =
     ''https://notes.example.org'' \<and>
   customServers (ui (exec (loadSettings store_services) initial_component orphan_store)) = [] \<and>
   \<not> selection_known (ui (exec (loadSettings store_services) initial_component orphan_store))"
  by (simp add: loadSettings_ui selection_known_def store_defs sample_defs)

text \<open>What \<^verbatim>\<open>handleRemoveServer\<close> writes when the removed server is the selected one and
  the stored settings can be read both times. Both \<^verbatim>\<open>saveSettings\<close> calls read the cells
  of the rendering the handler was created in: the first object still names the removed
  server as \<^verbatim>\<open>server_url\<close>, and the second, written last, holds the custom servers as
  they were before the removal.\<close>

lemma handleRemoveServer_saved:
  assumes "selectedServer s = url"
    and "getSyncSettings srv w = (Returns cur, w1)"
    and "saveSyncSettings srv
           \<lparr>auto_sync = Some (autoSync s), server_url = Some url,
            custom_servers = Some (filter (\<lambda>u. u \<noteq> url) (customServers s)),
            seed_phrase = Some (seedPhrase s), sync_interval = stored_sync_interval cur\<rparr> w1 = (r1, w2)"
    and "getSyncSettings srv w2 = (Returns cur2, w3)"
  shows "saved (trace (exec (handleRemoveServer srv s url) s w)) =
     [\<lparr>auto_sync = Some (autoSync s), server_url = Some url,
       custom_servers = Some (filter (\<lambda>u. u \<noteq> url) (customServers s)),
       seed_phrase = Some (seedPhrase s), sync_interval = stored_sync_interval cur\<rparr>,
      \<lparr>auto_sync = Some (autoSync s), server_url = Some (option_value (DEFAULT_SERVERS ! 0)),
       custom_servers = Some (customServers s),
       seed_phrase = Some (seedPhrase s), sync_interval = stored_sync_interval cur2\<rparr>]"
  using assms
  by (cases r1)
    (simp_all add: handleRemoveServer_def saveSettings_def proc_defs saved_def Let_def
      no_updates_def split: prod.split outcome.split)

text \<open>With the store of the examples: the only custom server is selected and removed. The
  next rendering has no custom server, and the store, written last by the second
  \<^verbatim>\<open>saveSettings\<close> call, lists the removed server again. In that call the cell behind
  the key the update does not name, \<^verbatim>\<open>customServers\<close>, no longer has the value the
  handler closed over.\<close>

lemma handleRemoveServer_writes_back_removed:
  "customServers
     (ui (exec (handleRemoveServer store_services custom_component ''https://notes.example.org'')
            custom_component custom_store)) = [] \<and>
   stored_custom_servers
     (world (exec (handleRemoveServer store_services custom_component ''https://notes.example.org'')
               custom_component custom_store)) = Some [''https://notes.example.org''] \<and>
   stored_server_url
     (world (exec (handleRemoveServer store_services custom_component ''https://notes.example.org'')
               custom_component custom_store)) = ''https://notes-sync.0xgingi.com''"
  by (simp add: handleRemoveServer_def saveSettings_def proc_defs Let_def store_defs sample_defs)

text \<open>What \<^verbatim>\<open>handleAddServer\<close> does to the custom servers and the selection is decided
  by the \<^verbatim>\<open>isValidUrl\<close> cell, not by the URL constructor. In a rendering in which the cell
  agrees with the constructor on \<^verbatim>\<open>newServerUrl\<close>, as after \<^verbatim>\<open>handleUrlChange\<close>, the
  URL is added exactly when it parses and is neither a custom nor a default server, and a
  rejected URL leaves both cells as they were.\<close>

lemma handleAddServer_when_flag_agrees:
  "isValidUrl s = validateUrl srv (newServerUrl s) \<Longrightarrow>
   customServers (ui (exec (handleAddServer srv s) s w)) =
     (if validateUrl srv (newServerUrl s) \<and> newServerUrl s \<notin> set (customServers s)
         \<and> \<not> list_ex (\<lambda>d. option_value d = newServerUrl s) DEFAULT_SERVERS
      then customServers s @ [newServerUrl s] else customServers s) \<and>
   selectedServer (ui (exec (handleAddServer srv s) s w)) =
     (if validateUrl srv (newServerUrl s) \<and> newServerUrl s \<notin> set (customServers s)
         \<and> \<not> list_ex (\<lambda>d. option_value d = newServerUrl s) DEFAULT_SERVERS
      then newServerUrl s else selectedServer s)"
  by (simp add: handleAddServer_ui)

text \<open>After a URL has been added, the dialog's text is reset to the empty string and the
  \<^verbatim>\<open>isValidUrl\<close> cell is left true.\<close>

lemma handleAddServer_leaves_flag:
  "isValidUrl s \<Longrightarrow> newServerUrl s \<notin> set (customServers s) \<Longrightarrow>
   \<not> list_ex (\<lambda>d. option_value d = newServerUrl s) DEFAULT_SERVERS \<Longrightarrow>
   newServerUrl (ui (exec (handleAddServer srv s) s w)) = [] \<and>
   isValidUrl (ui (exec (handleAddServer srv s) s w))"
  by (simp add: handleAddServer_ui)

text \<open>
  C2, where the code departs from it. From the initial rendering the user types
  \<^verbatim>\<open>https://notes.example.org\<close> into the dialog and presses its button: the URL is
  added, the text is reset to the empty string, the \<^verbatim>\<open>isValidUrl\<close> cell stays true.
  Pressing the button of the reopened dialog again calls \<^verbatim>\<open>handleAddServer\<close> with the
  empty string, which the URL constructor rejects; it is appended to the custom servers and
  selected.
\<close>

theorem handleAddServer_adds_empty_url:
  "newServerUrl added_component = [] \<and>
   isValidUrl added_component \<and>
   customServers added_component = [''https://notes.example.org''] \<and>
   validateUrl sample_services [] = False \<and>
   customServers (ui (exec (handleAddServer sample_services added_component) added_component ())) =
     [''https://notes.example.org'', []] \<and>
   selectedServer (ui (exec (handleAddServer sample_services added_component) added_component ())) = []"
  by (simp add: added_component_def typed_component_def handleAddServer_ui handleUrlChange_ui
      validateUrl_def sample_defs)


end
